theory Spec2Isabelle
  imports Main
begin

section \<open>The values the chat component handles\<close>

text \<open>
  The streaming logic of \<^verbatim>\<open>src/components/Chat.tsx\<close> works on values that come out of
  \<^verbatim>\<open>JSON.parse\<close> and are typed \<^verbatim>\<open>any\<close>. They are modelled as a datatype of JavaScript
  values. Text is a \<open>string\<close>, one \<open>char\<close> per character of the decoded text (the
  characters below 256; the records of the protocol are ASCII).
  A number is carried by the two things this program can observe of it: whether it is
  truthy (neither zero nor NaN) and its decimal rendering.
\<close>

datatype jsval =
    JUndefined
  | JNull
  | JBool bool
  | JNum bool string
  | JStr string
  | JArr "jsval list"
  | JObj "(string \<times> jsval) list"

text \<open>What a statement can throw: the two errors of the language that occur here, and
  \<open>Failure\<close> for a rejected request or read and for the \<^verbatim>\<open>Error\<close> objects the code throws
  itself.\<close>

datatype exn = SyntaxError | TypeError | Failure

text \<open>Truthiness, as \<^verbatim>\<open>&&\<close>, \<^verbatim>\<open>||\<close>, \<^verbatim>\<open>!\<close> and \<^verbatim>\<open>if\<close> test it.\<close>

fun truthy :: "jsval \<Rightarrow> bool" where
  "truthy JUndefined = False"
| "truthy JNull = False"
| "truthy (JBool b) = b"
| "truthy (JNum nonzero txt) = nonzero"
| "truthy (JStr s) = (s \<noteq> [])"
| "truthy (JArr xs) = True"
| "truthy (JObj kvs) = True"

text \<open>
  Reading a property (\<^verbatim>\<open>data.type\<close>, \<^verbatim>\<open>data.content\<close>, \<^verbatim>\<open>parsed.output\<close>, \<^verbatim>\<open>item.json\<close>)
  throws a TypeError on \<^verbatim>\<open>null\<close> and \<^verbatim>\<open>undefined\<close>. On any other value it gives the
  stored value when the value is an object that has the key, and \<^verbatim>\<open>undefined\<close> otherwise
  (none of the four keys is a built-in property of a string, number, boolean or array).
\<close>

definition nullish :: "jsval \<Rightarrow> bool" where
  "nullish v = (v = JNull \<or> v = JUndefined)"

fun getProp :: "jsval \<Rightarrow> string \<Rightarrow> jsval" where
  "getProp (JObj kvs) k = (case map_of kvs k of None \<Rightarrow> JUndefined | Some v \<Rightarrow> v)"
| "getProp v k = JUndefined"

fun joinWith :: "string \<Rightarrow> string list \<Rightarrow> string" where
  "joinWith sep [] = []"
| "joinWith sep [x] = x"
| "joinWith sep (x # y # ys) = x @ sep @ joinWith sep (y # ys)"

text \<open>
  The string a value turns into where the program uses it as text
  (\<^verbatim>\<open>currentContentRef.current += ...\<close>, and the argument of \<^verbatim>\<open>JSON.parse\<close>).
\<close>

fun jsToString :: "jsval \<Rightarrow> string" where
  "jsToString JUndefined = ''undefined''"
| "jsToString JNull = ''null''"
| "jsToString (JBool b) = (if b then ''true'' else ''false'')"
| "jsToString (JNum nonzero txt) = txt"
| "jsToString (JStr s) = s"
| "jsToString (JArr xs) =
     joinWith '','' (map (\<lambda>x. if x = JUndefined \<or> x = JNull then [] else jsToString x) xs)"
| "jsToString (JObj kvs) = ''[object Object]''"

section \<open>String operations\<close>

text \<open>The characters \<^verbatim>\<open>String.prototype.trim\<close> strips: tab, line feed, vertical tab,
  form feed, carriage return, space and no-break space.\<close>

definition isWhiteSpace :: "char \<Rightarrow> bool" where
  "isWhiteSpace c =
     (c = CHR 0x09 \<or> c = CHR 0x0A \<or> c = CHR 0x0B \<or> c = CHR 0x0C \<or> c = CHR 0x0D
      \<or> c = CHR 0x20 \<or> c = CHR 0xA0)"

definition trim :: "string \<Rightarrow> string" where
  "trim s = rev (dropWhile isWhiteSpace (rev (dropWhile isWhiteSpace s)))"

fun startsWith :: "string \<Rightarrow> string \<Rightarrow> bool" where
  "startsWith s [] = True"
| "startsWith [] (p # ps) = False"
| "startsWith (c # cs) (p # ps) = (c = p \<and> startsWith cs ps)"

text \<open>\<^verbatim>\<open>s.indexOf(p)\<close>: the first position where \<open>p\<close> occurs in \<open>s\<close>, or -1.\<close>

fun indexOf :: "string \<Rightarrow> string \<Rightarrow> int" where
  "indexOf [] p = (if p = [] then 0 else - 1)"
| "indexOf (c # cs) p =
     (if startsWith (c # cs) p then 0
      else (let i = indexOf cs p in if i < 0 then - 1 else i + 1))"

definition includesStr :: "string \<Rightarrow> string \<Rightarrow> bool" where
  "includesStr s p = (indexOf s p \<noteq> - 1)"

text \<open>\<^verbatim>\<open>s.substring(a, b)\<close>: both positions are clamped to the string, and swapped when
  the first is the larger.\<close>

definition substring :: "string \<Rightarrow> int \<Rightarrow> int \<Rightarrow> string" where
  "substring s a b =
     (let n = int (length s);
          a' = min (max a 0) n;
          b' = min (max b 0) n;
          lo = min a' b';
          hi = max a' b'
      in take (nat (hi - lo)) (drop (nat lo) s))"

text \<open>\<^verbatim>\<open>s.split(sep)\<close> for a one-character separator: never the empty list.\<close>

fun splitOn :: "char \<Rightarrow> string \<Rightarrow> string list" where
  "splitOn sep [] = [[]]"
| "splitOn sep (c # cs) =
     (if c = sep then [] # splitOn sep cs
      else (case splitOn sep cs of
              [] \<Rightarrow> [[c]]
            | l # ls \<Rightarrow> (c # l) # ls))"

text \<open>\<^verbatim>\<open>s.split('')\<close>: the characters of \<open>s\<close>, each a string of its own.\<close>

definition splitChars :: "string \<Rightarrow> string list" where
  "splitChars s = map (\<lambda>c. [c]) s"

section \<open>Messages and the state of a reply\<close>

datatype messageType = User | Assistant | Error

record message =
  type :: messageType
  content :: jsval
  timestamp :: string

text \<open>
  A callback handed to \<^verbatim>\<open>setTimeout(..., 100)\<close> and not yet run, with the variables it
  closed over: \<open>ShowFinal\<close> is the callback of the \<^verbatim>\<open><end>\<close> branch (it holds
  \<^verbatim>\<open>assistantMessage\<close> and \<^verbatim>\<open>finalContent\<close>), \<open>FinishNormal\<close> the one of the \<^verbatim>\<open>end\<close> record.
\<close>

datatype deferred = ShowFinal message string | FinishNormal message

text \<open>
  The React state and the refs of the component. \<open>streamInterval\<close> is
  \<^verbatim>\<open>streamIntervalRef.current\<close>: \<open>None\<close> for \<^verbatim>\<open>null\<close>, and otherwise the running interval
  with the \<^verbatim>\<open>assistantMessage\<close> its callback closed over. \<open>loadingInterval\<close> tells whether
  \<^verbatim>\<open>loadingIntervalRef.current\<close> holds a timer (the elapsed seconds it displays are not
  modelled). \<open>timeouts\<close> are the pending 100 ms callbacks, oldest first.
\<close>

record state =
  messages :: "message list"
  inputMessage :: string
  isLoading :: bool
  loadingInterval :: bool
  streamBuffer :: "string list"
  streamInterval :: "message option"
  currentContent :: jsval
  isInResponseTag :: bool
  responseContent :: jsval
  finalContent :: string
  hasSeenTags :: bool
  timeouts :: "deferred list"

text \<open>How a block of statements ends: normally, by \<^verbatim>\<open>break\<close>, by \<^verbatim>\<open>return\<close> or by
  throwing; each with the state reached.\<close>

datatype flow = Next state | Break state | Return state | Throw exn state

text \<open>\<^verbatim>\<open>setMessages(prev => [...prev.slice(0, -1), m])\<close>.\<close>

definition replaceLast :: "message list \<Rightarrow> message \<Rightarrow> message list" where
  "replaceLast prev m = butlast prev @ [m]"

text \<open>\<^verbatim>\<open>v += s\<close> for a string \<open>s\<close>.\<close>

definition plusString :: "jsval \<Rightarrow> string \<Rightarrow> jsval" where
  "plusString v s = JStr (jsToString v @ s)"

text \<open>The text on display: the content of the last message of the transcript.\<close>

definition visibleText :: "state \<Rightarrow> jsval" where
  "visibleText st = content (last (messages st))"

section \<open>The reveal timer\<close>

definition startSmoothStream :: "message \<Rightarrow> state \<Rightarrow> state" where
  "startSmoothStream assistantMessage st = st\<lparr>streamInterval := Some assistantMessage\<rparr>"

text \<open>The body of the interval callback: one element of the buffer per tick
  (\<^verbatim>\<open>shift() || ''\<close> is the element itself, or \<^verbatim>\<open>''\<close> for an empty one).\<close>

definition intervalCallback :: "message \<Rightarrow> state \<Rightarrow> state" where
  "intervalCallback assistantMessage st =
     (case streamBuffer st of
        [] \<Rightarrow> st
      | chunk # rest \<Rightarrow>
          (let cc = plusString (currentContent st) chunk
           in st\<lparr>streamBuffer := rest,
                 currentContent := cc,
                 messages := replaceLast (messages st) (assistantMessage\<lparr>content := cc\<rparr>)\<rparr>))"

text \<open>A tick of the clock: the callback runs when the interval is set.\<close>

definition onTick :: "state \<Rightarrow> state" where
  "onTick st =
     (case streamInterval st of
        None \<Rightarrow> st
      | Some assistantMessage \<Rightarrow> intervalCallback assistantMessage st)"

definition stopSmoothStream :: "state \<Rightarrow> state" where
  "stopSmoothStream st =
     (let st1 = st\<lparr>streamInterval := None\<rparr>
      in if streamBuffer st1 \<noteq> []
         then st1\<lparr>currentContent := plusString (currentContent st1) (concat (streamBuffer st1)),
                  streamBuffer := []\<rparr>
         else st1)"

definition startLoadingTimer :: "state \<Rightarrow> state" where
  "startLoadingTimer st = st\<lparr>loadingInterval := True\<rparr>"

definition stopLoadingTimer :: "state \<Rightarrow> state" where
  "stopLoadingTimer st = st\<lparr>loadingInterval := False\<rparr>"

text \<open>Running a pending 100 ms callback.\<close>

fun fire :: "deferred \<Rightarrow> state \<Rightarrow> state" where
  "fire (ShowFinal assistantMessage finalText) st =
     stopLoadingTimer
       (st\<lparr>currentContent := JStr finalText,
           messages := replaceLast (messages st) (assistantMessage\<lparr>content := JStr finalText\<rparr>),
           isLoading := False\<rparr>)"
| "fire (FinishNormal assistantMessage) st =
     stopLoadingTimer
       ((if truthy (currentContent st)
         then st\<lparr>messages :=
                   replaceLast (messages st) (assistantMessage\<lparr>content := currentContent st\<rparr>)\<rparr>
         else st)\<lparr>isLoading := False\<rparr>)"

text \<open>The oldest pending callback falls due.\<close>

definition onTimeout :: "state \<Rightarrow> state" where
  "onTimeout st =
     (case timeouts st of
        [] \<Rightarrow> st
      | d # ds \<Rightarrow> fire d (st\<lparr>timeouts := ds\<rparr>))"

text \<open>Every pending callback has run.\<close>

fun settle :: "deferred list \<Rightarrow> state \<Rightarrow> state" where
  "settle [] st = st"
| "settle (d # ds) st = settle ds (fire d st)"

definition settled :: "state \<Rightarrow> state" where
  "settled st = settle (timeouts st) (st\<lparr>timeouts := []\<rparr>)"

section \<open>One decoded record\<close>

text \<open>\<^verbatim>\<open>JSON.parse\<close> is a function of the runtime; it is a parameter \<open>parse\<close> of the model,
  \<open>None\<close> where it throws a SyntaxError.\<close>

type_synonym parser = "string \<Rightarrow> jsval option"

text \<open>Lines 295 to 303: content that is itself JSON with a truthy \<^verbatim>\<open>output\<close> is replaced by
  that output; any error on the way leaves it as it is.\<close>

definition unwrapOutput :: "parser \<Rightarrow> jsval \<Rightarrow> jsval" where
  "unwrapOutput parse dataContent =
     (case parse (jsToString dataContent) of
        None \<Rightarrow> dataContent
      | Some parsed \<Rightarrow>
          if nullish parsed then dataContent
          else if truthy (getProp parsed ''output'') then getProp parsed ''output''
          else dataContent)"

text \<open>\<^verbatim>\<open>content.includes(p)\<close> on a value of any type: a substring test on a string, an
  element test on an array, a TypeError on anything else.\<close>

fun jsIncludes :: "jsval \<Rightarrow> string \<Rightarrow> exn + bool" where
  "jsIncludes (JStr s) p = Inr (includesStr s p)"
| "jsIncludes (JArr xs) p = Inr (JStr p \<in> set xs)"
| "jsIncludes v p = Inl TypeError"

text \<open>\<^verbatim>\<open>streamBufferRef.current.push(...content.split(''))\<close>.\<close>

fun pushChars :: "state \<Rightarrow> jsval \<Rightarrow> flow" where
  "pushChars st (JStr s) = Next (st\<lparr>streamBuffer := streamBuffer st @ splitChars s\<rparr>)"
| "pushChars st v = Throw TypeError st"

text \<open>Lines 316 to 341, the terminator: only a string has \<^verbatim>\<open>substring\<close>.\<close>

fun endTag :: "message \<Rightarrow> state \<Rightarrow> jsval \<Rightarrow> flow" where
  "endTag assistantMessage st (JStr s) =
     (let startIdx = indexOf s ''<end>'' + 5;
          endIdx = indexOf s ''</end>'';
          finalText = trim (substring s startIdx endIdx);
          st1 = stopSmoothStream st
      in Break (st1\<lparr>timeouts := timeouts st1 @ [ShowFinal assistantMessage finalText]\<rparr>))"
| "endTag assistantMessage st v = Throw TypeError st"

text \<open>Lines 305 to 353: the tag rules, on the content of an \<^verbatim>\<open>item\<close> record.\<close>

definition handleItem :: "message \<Rightarrow> state \<Rightarrow> jsval \<Rightarrow> flow" where
  "handleItem assistantMessage st c =
     (if c = JStr ''<response>''
      then Next (st\<lparr>hasSeenTags := True, isInResponseTag := True, responseContent := JStr []\<rparr>)
      else if c = JStr ''</response>''
      then Next (st\<lparr>isInResponseTag := False, responseContent := currentContent st\<rparr>)
      else (case jsIncludes c ''<end>'' of
              Inl e \<Rightarrow> Throw e st
            | Inr hasOpen \<Rightarrow>
                if hasOpen \<and> jsIncludes c ''</end>'' = Inr True
                then endTag assistantMessage st c
                else if isInResponseTag st
                then pushChars st c
                else if \<not> isInResponseTag st \<and> hasSeenTags st \<and> jsIncludes c ''<'' = Inr False
                then Next st
                else if \<not> hasSeenTags st
                then pushChars st c
                else Next st))"

text \<open>Lines 354 to 363: a \<^verbatim>\<open>final\<close> or \<^verbatim>\<open>replace\<close> record.\<close>

definition replaceContent :: "message \<Rightarrow> state \<Rightarrow> jsval \<Rightarrow> state" where
  "replaceContent assistantMessage st dataContent =
     (let st1 = stopSmoothStream st
      in st1\<lparr>currentContent := dataContent,
             messages := replaceLast (messages st1) (assistantMessage\<lparr>content := dataContent\<rparr>)\<rparr>)"

text \<open>Lines 293 to 389: what the body of the \<^verbatim>\<open>try\<close> does with the parsed record.\<close>

definition handleData :: "parser \<Rightarrow> message \<Rightarrow> state \<Rightarrow> jsval \<Rightarrow> flow" where
  "handleData parse assistantMessage st data =
     (if nullish data then Throw TypeError st
      else if getProp data ''type'' = JStr ''item'' \<and> truthy (getProp data ''content'')
      then handleItem assistantMessage st (unwrapOutput parse (getProp data ''content''))
      else if getProp data ''type'' = JStr ''final'' \<or> getProp data ''type'' = JStr ''replace''
      then Next (replaceContent assistantMessage st (getProp data ''content''))
      else if getProp data ''type'' = JStr ''end''
      then (if \<not> hasSeenTags st
            then (let st1 = stopSmoothStream st
                  in Return (st1\<lparr>timeouts := timeouts st1 @ [FinishNormal assistantMessage]\<rparr>))
            else Next st)
      else Next st)"

text \<open>Lines 390 to 392: the \<^verbatim>\<open>catch\<close> logs the error, and the loop goes on with the next
  line.\<close>

definition catchLog :: "flow \<Rightarrow> flow" where
  "catchLog r = (case r of Throw e st \<Rightarrow> Next st | _ \<Rightarrow> r)"

text \<open>Lines 288 to 393: one line of the stream.\<close>

definition processLine :: "parser \<Rightarrow> message \<Rightarrow> state \<Rightarrow> string \<Rightarrow> flow" where
  "processLine parse assistantMessage st line =
     (if trim line = [] then Next st
      else catchLog (case parse (trim line) of
                       None \<Rightarrow> Throw SyntaxError st
                     | Some data \<Rightarrow> handleData parse assistantMessage st data))"

text \<open>Lines 286 to 394: the \<^verbatim>\<open>for\<close> loop over the complete lines of a chunk. \<^verbatim>\<open>break\<close> leaves
  this loop, and no other.\<close>

fun forLines :: "parser \<Rightarrow> message \<Rightarrow> state \<Rightarrow> string list \<Rightarrow> flow" where
  "forLines parse assistantMessage st [] = Next st"
| "forLines parse assistantMessage st (line # rest) =
     (case processLine parse assistantMessage st line of
        Next st' \<Rightarrow> forLines parse assistantMessage st' rest
      | Break st' \<Rightarrow> Next st'
      | r \<Rightarrow> r)"

section \<open>Reading the stream\<close>

text \<open>
  The local variables of the read loop (lines 253 to 259). What happens while
  \<^verbatim>\<open>sendMessage\<close> waits for the next chunk is a list of events, in the order they happen:
  a chunk of decoded text arrives, the reveal interval ticks, the oldest 100 ms callback
  falls due, or the read fails. The end of the list is the end of the stream.
\<close>

record reader =
  buffer :: string
  firstChunk :: string
  isJsonArray :: bool

datatype event = Chunk string | Tick | Timeout | ReadError

definition newline :: char where
  "newline = CHR 0x0A"

text \<open>Lines 268 to 282: a chunk is added to the buffer; the complete lines are taken out
  of it and the text after the last line feed stays (\<^verbatim>\<open>lines.pop() || ''\<close>).\<close>

definition takeLines :: "reader \<Rightarrow> string \<Rightarrow> string list \<times> reader" where
  "takeLines rd chunk =
     (let rd1 = (if firstChunk rd = [] \<and> startsWith (trim chunk) ''[''
                 then rd\<lparr>isJsonArray := True\<rparr> else rd);
          rd2 = rd1\<lparr>firstChunk := firstChunk rd1 @ chunk\<rparr>;
          lines = splitOn newline (buffer rd2 @ chunk)
      in (butlast lines, rd2\<lparr>buffer := last lines\<rparr>))"

text \<open>Lines 261 to 398. The result is how the loop ended and the locals it left.\<close>

fun readLoop :: "parser \<Rightarrow> message \<Rightarrow> state \<Rightarrow> reader \<Rightarrow> event list \<Rightarrow> flow \<times> reader" where
  "readLoop parse assistantMessage st rd [] = (Next st, rd)"
| "readLoop parse assistantMessage st rd (Chunk chunk # es) =
     (case forLines parse assistantMessage st (fst (takeLines rd chunk)) of
        Next st' \<Rightarrow> readLoop parse assistantMessage st' (snd (takeLines rd chunk)) es
      | r \<Rightarrow> (r, snd (takeLines rd chunk)))"
| "readLoop parse assistantMessage st rd (Tick # es) =
     readLoop parse assistantMessage (onTick st) rd es"
| "readLoop parse assistantMessage st rd (Timeout # es) =
     readLoop parse assistantMessage (onTimeout st) rd es"
| "readLoop parse assistantMessage st rd (ReadError # es) = (Throw Failure st, rd)"

section \<open>The text left in the buffer when the stream ends\<close>

text \<open>\<^verbatim>\<open>for (const item of jsonArray)\<close>: the elements of an array, the characters of a
  string, a TypeError on anything else.\<close>

fun iterate :: "jsval \<Rightarrow> exn + jsval list" where
  "iterate (JArr xs) = Inr xs"
| "iterate (JStr s) = Inr (map (\<lambda>c. JStr [c]) s)"
| "iterate v = Inl TypeError"

text \<open>Line 411: \<^verbatim>\<open>item.json || item\<close>.\<close>

definition unwrapJson :: "jsval \<Rightarrow> jsval" where
  "unwrapJson item = (if truthy (getProp item ''json'') then getProp item ''json'' else item)"

text \<open>Lines 414 to 424: what is done with the record of an element.\<close>

definition arrayRecord :: "message \<Rightarrow> state \<Rightarrow> jsval \<Rightarrow> flow" where
  "arrayRecord assistantMessage st data =
     (if getProp data ''type'' = JStr ''item'' \<and> truthy (getProp data ''content'')
      then pushChars st (getProp data ''content'')
      else if getProp data ''type'' = JStr ''replace'' \<or> getProp data ''type'' = JStr ''final''
      then Next (replaceContent assistantMessage st (getProp data ''content''))
      else Next st)"

text \<open>Lines 410 to 425: one element of the array.\<close>

definition arrayItem :: "message \<Rightarrow> state \<Rightarrow> jsval \<Rightarrow> flow" where
  "arrayItem assistantMessage st item =
     (if nullish item then Throw TypeError st
      else arrayRecord assistantMessage st (unwrapJson item))"

fun forArray :: "message \<Rightarrow> state \<Rightarrow> jsval list \<Rightarrow> flow" where
  "forArray assistantMessage st [] = Next st"
| "forArray assistantMessage st (item # rest) =
     (case arrayItem assistantMessage st item of
        Next st' \<Rightarrow> forArray assistantMessage st' rest
      | r \<Rightarrow> r)"

text \<open>Lines 428 to 433: the buffer as one record.\<close>

definition singleObject :: "state \<Rightarrow> jsval \<Rightarrow> flow" where
  "singleObject st data =
     (if nullish data then Throw TypeError st
      else if getProp data ''type'' = JStr ''item'' \<and> truthy (getProp data ''content'')
      then pushChars st (getProp data ''content'')
      else Next st)"

text \<open>Lines 400 to 438. The \<^verbatim>\<open>catch\<close> logs the error; the state stays as the statements
  before the error left it.\<close>

definition finalBuffer :: "parser \<Rightarrow> message \<Rightarrow> state \<Rightarrow> string \<Rightarrow> state" where
  "finalBuffer parse assistantMessage st buf =
     (if trim buf = [] then st
      else (case (if startsWith (trim buf) ''[''
                  then (case parse (trim buf) of
                          None \<Rightarrow> Throw SyntaxError st
                        | Some jsonArray \<Rightarrow>
                            (case iterate jsonArray of
                               Inl e \<Rightarrow> Throw e st
                             | Inr items \<Rightarrow> forArray assistantMessage st items))
                  else (case parse (trim buf) of
                          None \<Rightarrow> Throw SyntaxError st
                        | Some data \<Rightarrow> singleObject st data)) of
              Next st' \<Rightarrow> st'
            | Break st' \<Rightarrow> st'
            | Return st' \<Rightarrow> st'
            | Throw e st' \<Rightarrow> st'))"

section \<open>Sending a message\<close>

text \<open>
  Lines 442 to 444: \<^verbatim>\<open>while (streamBufferRef.current.length > 0) await ...\<close>. Nothing but
  the reveal interval takes characters out of the buffer, so the loop runs for as long
  as ticks leave something in it: it never ends (\<open>None\<close>) when the buffer is not empty
  and the interval has been cleared.
\<close>

partial_function (option) waitForBuffer :: "state \<Rightarrow> state option" where
  "waitForBuffer st =
     (if streamBuffer st \<noteq> [] then waitForBuffer (onTick st) else Some st)"

declare waitForBuffer.simps [code]

text \<open>What \<^verbatim>\<open>fetch\<close> gives: a rejected promise, or a response with its \<^verbatim>\<open>ok\<close> flag and its
  body (\<^verbatim>\<open>null\<close>, or a stream, given by the events of its reading).\<close>

datatype response = Rejected | Response bool "event list option"

text \<open>The three values of \<^verbatim>\<open>formatTimestamp()\<close>: for the user's message, for the
  assistant's message and for the error message.\<close>

record timestamps =
  userTime :: string
  assistantTime :: string
  errorTime :: string

text \<open>Lines 440 to 450: when the stream has ended and the buffer has been dealt with.
  \<^verbatim>\<open>finalContentRef\<close> is tested here; no statement of the component assigns it after
  the reset of line 223.\<close>

definition afterStream :: "state \<Rightarrow> state option" where
  "afterStream st =
     (if finalContent st = []
      then (case waitForBuffer st of
              None \<Rightarrow> None
            | Some st' \<Rightarrow> Some (stopLoadingTimer ((stopSmoothStream st')\<lparr>isLoading := False\<rparr>)))
      else Some st)"

text \<open>Lines 228 to 450, the body of the \<^verbatim>\<open>try\<close>; \<open>None\<close> when it never ends.\<close>

definition tryBlock :: "parser \<Rightarrow> message \<Rightarrow> state \<Rightarrow> response \<Rightarrow> flow option" where
  "tryBlock parse assistantMessage st resp =
     (case resp of
        Rejected \<Rightarrow> Some (Throw Failure st)
      | Response ok body \<Rightarrow>
          if \<not> ok then Some (Throw Failure st)
          else (case body of
                  None \<Rightarrow> Some (Throw Failure st)
                | Some events \<Rightarrow>
                    (case readLoop parse assistantMessage st
                            \<lparr>buffer = [], firstChunk = [], isJsonArray = False\<rparr> events of
                       (Next st1, rd) \<Rightarrow>
                         map_option Next
                           (afterStream (finalBuffer parse assistantMessage st1 (buffer rd)))
                     | (r, rd) \<Rightarrow> Some r)))"

text \<open>Lines 451 to 461.\<close>

definition errorMessage :: "timestamps \<Rightarrow> message" where
  "errorMessage ts =
     \<lparr>type = Error,
      content = JStr ''Error connecting to server. Please try again.'',
      timestamp = errorTime ts\<rparr>"

definition catchBlock :: "timestamps \<Rightarrow> state \<Rightarrow> state" where
  "catchBlock ts st =
     (let st1 = stopSmoothStream st
      in st1\<lparr>messages := replaceLast (messages st1) (errorMessage ts)\<rparr>)"

text \<open>Lines 462 to 465.\<close>

definition finallyBlock :: "state \<Rightarrow> state" where
  "finallyBlock st = stopLoadingTimer (st\<lparr>isLoading := False\<rparr>)"

text \<open>Lines 210 to 214: the empty assistant message the reply is streamed into.\<close>

definition newAssistantMessage :: "timestamps \<Rightarrow> message" where
  "newAssistantMessage ts = \<lparr>type = Assistant, content = JStr [], timestamp = assistantTime ts\<rparr>"

text \<open>Lines 193 to 225: the transcript and the refs when the request goes out.\<close>

definition beginReply :: "timestamps \<Rightarrow> state \<Rightarrow> state" where
  "beginReply ts st =
     (let userMessage = trim (inputMessage st);
          st1 = st\<lparr>inputMessage := []\<rparr>;
          st2 = st1\<lparr>messages := messages st1 @
                  [\<lparr>type = User, content = JStr userMessage, timestamp = userTime ts\<rparr>]\<rparr>;
          st3 = startLoadingTimer (st2\<lparr>isLoading := True\<rparr>);
          assistantMessage = newAssistantMessage ts;
          st4 = st3\<lparr>messages := messages st3 @ [assistantMessage]\<rparr>;
          st5 = st4\<lparr>currentContent := JStr [], streamBuffer := [], isInResponseTag := False,
                    responseContent := JStr [], finalContent := [], hasSeenTags := False\<rparr>
      in startSmoothStream assistantMessage st5)"

text \<open>Lines 190 to 466: the state when \<^verbatim>\<open>sendMessage\<close> has returned, \<open>None\<close> when it never
  does. Callbacks still pending then are in \<open>timeouts\<close>.\<close>

definition sendMessage :: "parser \<Rightarrow> timestamps \<Rightarrow> state \<Rightarrow> response \<Rightarrow> state option" where
  "sendMessage parse ts st resp =
     (if trim (inputMessage st) = [] \<or> isLoading st then Some st
      else (let assistantMessage = newAssistantMessage ts
            in case tryBlock parse assistantMessage (beginReply ts st) resp of
                 None \<Rightarrow> None
               | Some (Throw e st') \<Rightarrow> Some (finallyBlock (catchBlock ts st'))
               | Some (Next st') \<Rightarrow> Some (finallyBlock st')
               | Some (Break st') \<Rightarrow> Some (finallyBlock st')
               | Some (Return st') \<Rightarrow> Some (finallyBlock st')))"

text \<open>The text on display in the end: \<^verbatim>\<open>sendMessage\<close> has returned and every pending
  callback has run.\<close>

definition finalVisibleText :: "parser \<Rightarrow> timestamps \<Rightarrow> state \<Rightarrow> response \<Rightarrow> jsval option" where
  "finalVisibleText parse ts st resp =
     map_option (\<lambda>st'. visibleText (settled st')) (sendMessage parse ts st resp)"

section \<open>Notions used in the statements\<close>

text \<open>A block raises when it ends by throwing.\<close>

definition raises :: "flow \<Rightarrow> bool" where
  "raises r = (case r of Throw e st \<Rightarrow> True | _ \<Rightarrow> False)"

text \<open>Everything received for display so far: the content already revealed followed by
  the characters still queued.\<close>

definition streamedSoFar :: "state \<Rightarrow> jsval" where
  "streamedSoFar st =
     (if streamBuffer st = [] then currentContent st
      else plusString (currentContent st) (concat (streamBuffer st)))"


text \<open>The content the tag rules see on a line, when the line is an \<^verbatim>\<open>item\<close> record with
  content; and whether that content is a terminator, the case of lines 316 to 341.\<close>

definition itemContent :: "parser \<Rightarrow> string \<Rightarrow> jsval option" where
  "itemContent parse line =
     (if trim line = [] then None
      else (case parse (trim line) of
              None \<Rightarrow> None
            | Some data \<Rightarrow>
                if \<not> nullish data \<and> getProp data ''type'' = JStr ''item''
                   \<and> truthy (getProp data ''content'')
                then Some (unwrapOutput parse (getProp data ''content''))
                else None))"

definition isTerminator :: "parser \<Rightarrow> string \<Rightarrow> bool" where
  "isTerminator parse line =
     (case itemContent parse line of
        Some (JStr s) \<Rightarrow> includesStr s ''<end>'' \<and> includesStr s ''</end>''
      | _ \<Rightarrow> False)"




section \<open>Example inputs\<close>

definition helloLine :: string where
  \<open>helloLine = ''{"type":"item","content":"Hello"}''\<close>

definition endLine :: string where
  \<open>endLine = ''{"type":"end"}''\<close>

definition emptyItemLine :: string where
  \<open>emptyItemLine = ''{"type":"item","content":""}''\<close>

definition replaceLine :: string where
  \<open>replaceLine = ''{"type":"replace","content":"Corrected text"}''\<close>

definition tagLine :: string where
  \<open>tagLine = ''{"type":"item","content":"<response>"}''\<close>

definition terminatorA :: string where
  \<open>terminatorA = ''{"type":"item","content":"<end>A</end>"}''\<close>

definition terminatorB :: string where
  \<open>terminatorB = ''{"type":"item","content":"<end>B</end>"}''\<close>

definition batchText :: string where
  \<open>batchText = ''[{"json":{"type":"item","content":"Hi"}}]''\<close>

definition itemRecord :: "string \<Rightarrow> jsval" where
  "itemRecord s = JObj [(''type'', JStr ''item''), (''content'', JStr s)]"

definition endRecord :: jsval where
  "endRecord = JObj [(''type'', JStr ''end'')]"

definition replaceRecord :: jsval where
  "replaceRecord = JObj [(''type'', JStr ''replace''), (''content'', JStr ''Corrected text'')]"



text \<open>A parser that gives what \<^verbatim>\<open>JSON.parse\<close> gives on each of the texts above. The only
  other texts the examples hand to it are contents that are not JSON (\<^verbatim>\<open>Hello\<close>, \<^verbatim>\<open>Hi\<close>,
  \<^verbatim>\<open><response>\<close>, \<^verbatim>\<open><end>A</end>\<close>, \<^verbatim>\<open><end>B</end>\<close>), on which \<^verbatim>\<open>JSON.parse\<close> throws.\<close>

definition exampleParse :: parser where
  "exampleParse s =
     (if s = helloLine then Some (itemRecord ''Hello'')
      else if s = endLine then Some endRecord
      else if s = emptyItemLine then Some (itemRecord [])
      else if s = replaceLine then Some replaceRecord
      else if s = tagLine then Some (itemRecord ''<response>'')
      else if s = terminatorA then Some (itemRecord ''<end>A</end>'')
      else if s = terminatorB then Some (itemRecord ''<end>B</end>'')
      else if s = batchText then Some (JArr [JObj [(''json'', itemRecord ''Hi'')]])
      else None)"

definition exampleMessage :: message where
  "exampleMessage = \<lparr>type = Assistant, content = JStr [], timestamp = ''10:00''\<rparr>"

definition exampleTimes :: timestamps where
  "exampleTimes = \<lparr>userTime = ''10:00'', assistantTime = ''10:00'', errorTime = ''10:01''\<rparr>"

text \<open>The component before the first message is sent, with a question typed in.\<close>

definition exampleState :: state where
  "exampleState =
     \<lparr>messages = [], inputMessage = ''Hi?'', isLoading = False, loadingInterval = False,
      streamBuffer = [], streamInterval = None, currentContent = JStr [],
      isInResponseTag = False, responseContent = JStr [], finalContent = [],
      hasSeenTags = False, timeouts = []\<rparr>"

text \<open>A reply in progress: \<^verbatim>\<open>Hel\<close> is on display and \<^verbatim>\<open>lo\<close> is still queued.\<close>

definition midReply :: state where
  "midReply =
     \<lparr>messages = [\<lparr>type = User, content = JStr ''Hi?'', timestamp = ''10:00''\<rparr>,
                  exampleMessage\<lparr>content := JStr ''Hel''\<rparr>],
      inputMessage = [], isLoading = True, loadingInterval = True,
      streamBuffer = [''l'', ''o''], streamInterval = Some exampleMessage,
      currentContent = JStr ''Hel'',
      isInResponseTag = False, responseContent = JStr [], finalContent = [],
      hasSeenTags = False, timeouts = []\<rparr>"

section \<open>Notions used in the proofs\<close>

text \<open>
  The state with the queue revealed, as it is once the ticks of a running interval have
  caught up; and the same with \<open>responseContent\<close> erased (that ref is written at
  \<^verbatim>\<open></response>\<close> and read nowhere). Two runs that differ in when the ticks came agree on
  this core of the state.
\<close>

definition caughtUp :: "state \<Rightarrow> state" where
  "caughtUp st =
     (case streamInterval st of
        None \<Rightarrow> st
      | Some assistantMessage \<Rightarrow>
          if streamBuffer st = [] then st
          else st\<lparr>streamBuffer := [],
                  currentContent := plusString (currentContent st) (concat (streamBuffer st)),
                  messages := replaceLast (messages st)
                    (assistantMessage\<lparr>content :=
                       plusString (currentContent st) (concat (streamBuffer st))\<rparr>)\<rparr>)"

definition core :: "state \<Rightarrow> state" where
  "core st = (caughtUp st)\<lparr>responseContent := JUndefined\<rparr>"

text \<open>No callback is pending, the queue holds no empty string, and \<open>finalContent\<close> is
  empty: what holds during a reply in which no terminator has arrived.\<close>

definition steady :: "state \<Rightarrow> bool" where
  "steady st = (timeouts st = [] \<and> [] \<notin> set (streamBuffer st) \<and> finalContent st = [])"

text \<open>The text on display once \<^verbatim>\<open>sendMessage\<close> has returned from this state and the pending
  callbacks have run.\<close>

definition shown :: "state \<Rightarrow> jsval" where
  "shown st = visibleText (settled (finallyBlock st))"

text \<open>What two runs must agree on at the end of a block: the core of the state when the
  block goes on or throws, the text shown when it returns.\<close>

datatype observation = Continues state | Finished jsval | Raised state | Stopped

fun observe :: "flow \<Rightarrow> observation" where
  "observe (Next st) = Continues (core st)"
| "observe (Return st) = Finished (shown st)"
| "observe (Throw e st) = Raised (core st)"
| "observe (Break st) = Stopped"

fun steadyFlow :: "flow \<Rightarrow> bool" where
  "steadyFlow (Next st) = steady st"
| "steadyFlow (Throw e st) = steady st"
| "steadyFlow (Return st) = True"
| "steadyFlow (Break st) = False"


text \<open>The content is not a terminator.\<close>

definition plain :: "jsval \<Rightarrow> bool" where
  "plain c = (case c of JStr s \<Rightarrow> \<not> (includesStr s ''<end>'' \<and> includesStr s ''</end>'') | _ \<Rightarrow> True)"



section \<open>Helper lemmas\<close>


lemma getProp_JStr_not_nullish: "getProp d k = JStr s \<Longrightarrow> \<not> nullish d"
  by (cases d) (simp_all add: nullish_def)

lemma stop_simps:
  "streamBuffer (stopSmoothStream st) = []"
  "streamInterval (stopSmoothStream st) = None"
  "messages (stopSmoothStream st) = messages st"
  "timeouts (stopSmoothStream st) = timeouts st"
  "hasSeenTags (stopSmoothStream st) = hasSeenTags st"
  "isInResponseTag (stopSmoothStream st) = isInResponseTag st"
  "isLoading (stopSmoothStream st) = isLoading st"
  "loadingInterval (stopSmoothStream st) = loadingInterval st"
  "finalContent (stopSmoothStream st) = finalContent st"
  "inputMessage (stopSmoothStream st) = inputMessage st"
  by (simp_all add: stopSmoothStream_def Let_def)


lemmas example_defs =
  helloLine_def endLine_def emptyItemLine_def replaceLine_def tagLine_def terminatorA_def
  terminatorB_def batchText_def itemRecord_def endRecord_def replaceRecord_def exampleParse_def exampleMessage_def
  exampleTimes_def exampleState_def midReply_def

lemma trim_examples:
  "trim helloLine = helloLine" "trim endLine = endLine" "trim emptyItemLine = emptyItemLine"
  "trim replaceLine = replaceLine" "trim tagLine = tagLine" "trim terminatorA = terminatorA"
  "trim terminatorB = terminatorB" "trim batchText = batchText"
  by (simp_all add: trim_def isWhiteSpace_def example_defs)

section \<open>Stopping the reveal timer\<close>


section \<open>Records without content\<close>

text \<open>
  Claim C10. An \<^verbatim>\<open>item\<close> record whose content is the empty string or absent is ignored:
  the state after it is the state before it, whether the record arrives as a line of the
  stream, as the last unterminated record or wrapped in an element of a batch array.
\<close>

theorem empty_item_is_ignored:
  assumes "getProp data ''type'' = JStr ''item''"
      and "getProp data ''content'' = JStr [] \<or> getProp data ''content'' = JUndefined"
  shows "handleData parse am st data = Next st
       \<and> (parse (trim line) = Some data \<longrightarrow> processLine parse am st line = Next st)
       \<and> singleObject st data = Next st
       \<and> arrayItem am st (JObj [(''json'', data)]) = Next st"
proof -
  have nn: "\<not> nullish data"
    using assms(1) by (rule getProp_JStr_not_nullish)
  have falsy: "\<not> truthy (getProp data ''content'')"
    using assms(2) by auto
  have h: "handleData parse am st data = Next st"
    using nn falsy assms(1) by (simp add: handleData_def)
  have d: "truthy data"
    using assms(1) by (cases data) simp_all
  show ?thesis
    using nn falsy assms(1) h d
    by (simp add: processLine_def catchLog_def singleObject_def arrayItem_def arrayRecord_def unwrapJson_def
        nullish_def)
qed

theorem empty_item_is_ignored_witness:
  "getProp (itemRecord []) ''type'' = JStr ''item''
   \<and> getProp (itemRecord []) ''content'' = JStr []
   \<and> exampleParse (trim emptyItemLine) = Some (itemRecord [])
   \<and> handleData exampleParse exampleMessage midReply (itemRecord []) = Next midReply
   \<and> processLine exampleParse exampleMessage midReply emptyItemLine = Next midReply
   \<and> singleObject midReply (itemRecord []) = Next midReply
   \<and> arrayItem exampleMessage midReply (JObj [(''json'', itemRecord [])]) = Next midReply"
proof -
  have h1: "getProp (itemRecord []) ''type'' = JStr ''item''"
    by (simp add: itemRecord_def)
  have h2: "getProp (itemRecord []) ''content'' = JStr [] \<or> getProp (itemRecord []) ''content'' = JUndefined"
    by (simp add: itemRecord_def)
  have p: "exampleParse (trim emptyItemLine) = Some (itemRecord [])"
    by (simp add: trim_examples) (simp add: example_defs)
  show ?thesis
    using empty_item_is_ignored[OF h1 h2, of exampleParse exampleMessage midReply emptyItemLine] h1 p
    by (simp add: itemRecord_def)
qed

section \<open>Authoritative replacement\<close>



section \<open>Malformed input\<close>

lemma processLine_not_raises: "\<not> raises (processLine parse am st line)"
  by (simp add: processLine_def catchLog_def raises_def split: option.splits flow.splits)

lemma forLines_not_raises: "\<not> raises (forLines parse am st ls)"
proof (induction ls arbitrary: st)
  case Nil
  show ?case by (simp add: raises_def)
next
  case (Cons l ls)
  show ?case
    using processLine_not_raises[of parse am st l] Cons.IH
    by (cases "processLine parse am st l") (simp_all add: raises_def)
qed

lemma readLoop_not_raises:
  "ReadError \<notin> set es \<Longrightarrow> \<not> raises (fst (readLoop parse am st rd es))"
proof (induction es arbitrary: st rd)
  case Nil
  show ?case by (simp add: raises_def)
next
  case (Cons e es)
  show ?case
  proof (cases e)
    case (Chunk c)
    show ?thesis
    proof (cases "forLines parse am st (fst (takeLines rd c))")
      case (Next st')
      then show ?thesis using Chunk Cons by simp
    next
      case (Break st')
      then show ?thesis using Chunk by (simp add: raises_def)
    next
      case (Return st')
      then show ?thesis using Chunk by (simp add: raises_def)
    next
      case (Throw x st')
      then show ?thesis using forLines_not_raises[of parse am st "fst (takeLines rd c)"]
        by (simp add: raises_def)
    qed
  next
    case Tick
    then show ?thesis using Cons by simp
  next
    case Timeout
    then show ?thesis using Cons by simp
  next
    case ReadError
    then show ?thesis using Cons by simp
  qed
qed

lemma forLines_drop_ignored:
  assumes "\<And>s. processLine parse am s line = Next s"
  shows "forLines parse am st (pre @ line # post) = forLines parse am st (pre @ post)"
proof (induction pre arbitrary: st)
  case Nil
  show ?case by (simp add: assms)
next
  case (Cons l pre)
  show ?case
    by (cases "processLine parse am st l") (simp_all add: Cons.IH)
qed

text \<open>
  Claim C4. Decoding never raises: no line makes \<open>processLine\<close>, the loop over the lines
  or (unless the read itself fails) the read loop end by throwing. A line that does not
  parse leaves the state as it is, and the lines around it are decoded as if it were
  not there; left in the buffer at the end of the stream, it leaves the state as it is
  too (\<open>finalBuffer\<close> gives a state whatever the text).
\<close>

theorem decoder_never_raises:
  "\<not> raises (processLine parse am st line)
   \<and> \<not> raises (forLines parse am st ls)
   \<and> (ReadError \<notin> set es \<longrightarrow> \<not> raises (fst (readLoop parse am st rd es)))
   \<and> (parse (trim bad) = None \<longrightarrow>
        processLine parse am st bad = Next st
        \<and> forLines parse am st (pre @ bad # post) = forLines parse am st (pre @ post)
        \<and> finalBuffer parse am st bad = st)"
proof -
  have "parse (trim bad) = None \<Longrightarrow> processLine parse am s bad = Next s" for s
    by (simp add: processLine_def catchLog_def)
  moreover have "parse (trim bad) = None \<Longrightarrow> finalBuffer parse am st bad = st"
    by (simp add: finalBuffer_def)
  ultimately show ?thesis
    using processLine_not_raises forLines_not_raises readLoop_not_raises
      forLines_drop_ignored[of parse am bad st pre post]
    by blast
qed

theorem decoder_never_raises_witness:
  "ReadError \<notin> set [Chunk (''not json'' @ [newline] @ helloLine @ [newline])]
   \<and> \<not> raises (fst (readLoop exampleParse exampleMessage midReply
                    \<lparr>buffer = [], firstChunk = [], isJsonArray = False\<rparr>
                    [Chunk (''not json'' @ [newline] @ helloLine @ [newline])]))
   \<and> exampleParse (trim ''not json'') = None
   \<and> processLine exampleParse exampleMessage midReply ''not json'' = Next midReply
   \<and> forLines exampleParse exampleMessage midReply ([] @ ''not json'' # [helloLine])
       = forLines exampleParse exampleMessage midReply ([] @ [helloLine])
   \<and> forLines exampleParse exampleMessage midReply [''not json'', helloLine]
       = Next (midReply\<lparr>streamBuffer := [''l'', ''o'', ''H'', ''e'', ''l'', ''l'', ''o'']\<rparr>)"
proof -
  have r: "ReadError \<notin> set [Chunk (''not json'' @ [newline] @ helloLine @ [newline])]"
    by simp
  have p: "exampleParse (trim ''not json'') = None"
    by (simp add: trim_def isWhiteSpace_def) (simp add: example_defs)
  have ph: "exampleParse (trim helloLine) = Some (itemRecord ''Hello'')"
    by (simp add: trim_examples) (simp add: example_defs)
  have pc: "exampleParse ''Hello'' = None"
    by (simp add: example_defs)
  have tn: "trim helloLine \<noteq> []"
    by (simp add: trim_examples) (simp add: helloLine_def)
  have f: "forLines exampleParse exampleMessage midReply [helloLine]
       = Next (midReply\<lparr>streamBuffer := [''l'', ''o'', ''H'', ''e'', ''l'', ''l'', ''o'']\<rparr>)"
    using ph pc tn
    by (simp add: processLine_def catchLog_def handleData_def itemRecord_def nullish_def unwrapOutput_def
        handleItem_def includesStr_def splitChars_def midReply_def)
  note d = decoder_never_raises[where parse = exampleParse and am = exampleMessage
        and st = midReply and line = "''not json''" and ls = "[]"
        and es = "[Chunk (''not json'' @ [newline] @ helloLine @ [newline])]"
        and rd = "\<lparr>buffer = [], firstChunk = [], isJsonArray = False\<rparr>"
        and bad = "''not json''" and pre = "[]" and post = "[helloLine]"]
  have a: "\<not> raises (fst (readLoop exampleParse exampleMessage midReply
                    \<lparr>buffer = [], firstChunk = [], isJsonArray = False\<rparr>
                    [Chunk (''not json'' @ [newline] @ helloLine @ [newline])]))"
    using d r by blast
  have b: "processLine exampleParse exampleMessage midReply ''not json'' = Next midReply
       \<and> forLines exampleParse exampleMessage midReply ([] @ ''not json'' # [helloLine])
           = forLines exampleParse exampleMessage midReply ([] @ [helloLine])"
    using d p by blast
  have g: "forLines exampleParse exampleMessage midReply [''not json'', helloLine]
       = Next (midReply\<lparr>streamBuffer := [''l'', ''o'', ''H'', ''e'', ''l'', ''l'', ''o'']\<rparr>)"
    using b f by simp
  show ?thesis
    using r a p b g by blast
qed

section \<open>Elements of a batch array\<close>

text \<open>
  Claim C9. An element of a batch array is unwrapped (\<^verbatim>\<open>item.json || item\<close>) and its record
  handled by \<open>arrayRecord\<close>, which treats it differently from a line of the stream. The
  content of an \<^verbatim>\<open>item\<close> is queued as it stands, whatever the tag state, and no parser is
  consulted to unwrap it (\<open>arrayRecord\<close> has no parser to call); an \<^verbatim>\<open>end\<close> record, and any
  record whose type is not \<^verbatim>\<open>item\<close>, \<^verbatim>\<open>replace\<close> or \<^verbatim>\<open>final\<close>, changes nothing; \<^verbatim>\<open>replace\<close> and
  \<^verbatim>\<open>final\<close> replace the content. The last conjunct sets the two paths side by side on the
  record with content \<^verbatim>\<open><response>\<close>: as a line it switches the tag state and queues
  nothing, as a batch element its ten characters are queued for display.
\<close>

theorem batch_elements_bypass_tag_rules:
  "(\<not> nullish item \<longrightarrow> arrayItem am st item = arrayRecord am st (unwrapJson item))
   \<and> unwrapJson (JObj [(''json'', itemRecord s)]) = itemRecord s
   \<and> (getProp data ''type'' = JStr ''item'' \<longrightarrow> getProp data ''content'' = JStr s \<longrightarrow> s \<noteq> [] \<longrightarrow>
      arrayRecord am st data = Next (st\<lparr>streamBuffer := streamBuffer st @ splitChars s\<rparr>))
   \<and> (getProp data ''type'' = JStr ''end'' \<longrightarrow> arrayRecord am st data = Next st)
   \<and> (getProp data ''type'' \<noteq> JStr ''item'' \<longrightarrow> getProp data ''type'' \<noteq> JStr ''replace'' \<longrightarrow>
        getProp data ''type'' \<noteq> JStr ''final'' \<longrightarrow> arrayRecord am st data = Next st)
   \<and> (getProp data ''type'' = JStr ''replace'' \<or> getProp data ''type'' = JStr ''final'' \<longrightarrow>
        arrayRecord am st data = Next (replaceContent am st (getProp data ''content'')))
   \<and> (parse ''<response>'' = None \<longrightarrow>
        handleData parse am st (itemRecord ''<response>'')
          = Next (st\<lparr>hasSeenTags := True, isInResponseTag := True, responseContent := JStr []\<rparr>)
        \<and> arrayRecord am st (itemRecord ''<response>'')
          = Next (st\<lparr>streamBuffer := streamBuffer st @ splitChars ''<response>''\<rparr>))"
  by (auto simp add: arrayItem_def unwrapJson_def arrayRecord_def handleData_def itemRecord_def
      nullish_def unwrapOutput_def handleItem_def)

theorem batch_elements_bypass_tag_rules_witness:
  "getProp (itemRecord ''<response>'') ''type'' = JStr ''item''
   \<and> getProp (itemRecord ''<response>'') ''content'' = JStr ''<response>''
   \<and> exampleParse ''<response>'' = None
   \<and> arrayRecord exampleMessage midReply (itemRecord ''<response>'')
       = Next (midReply\<lparr>streamBuffer := streamBuffer midReply @ splitChars ''<response>''\<rparr>)
   \<and> handleData exampleParse exampleMessage midReply (itemRecord ''<response>'')
       = Next (midReply\<lparr>hasSeenTags := True, isInResponseTag := True, responseContent := JStr []\<rparr>)
   \<and> getProp endRecord ''type'' = JStr ''end''
   \<and> arrayRecord exampleMessage midReply endRecord = Next midReply"
proof -
  have t: "getProp (itemRecord ''<response>'') ''type'' = JStr ''item''"
    and c: "getProp (itemRecord ''<response>'') ''content'' = JStr ''<response>''"
    by (simp_all add: itemRecord_def)
  have p: "exampleParse ''<response>'' = None"
    by (simp add: example_defs)
  have e: "getProp endRecord ''type'' = JStr ''end''"
    by (simp add: endRecord_def)
  note i1 = batch_elements_bypass_tag_rules[where data = "itemRecord ''<response>''"
      and s = "''<response>''" and am = exampleMessage and st = midReply and parse = exampleParse]
  note i2 = batch_elements_bypass_tag_rules[where data = endRecord
      and s = "''<response>''" and am = exampleMessage and st = midReply and parse = exampleParse]
  have a: "arrayRecord exampleMessage midReply (itemRecord ''<response>'')
       = Next (midReply\<lparr>streamBuffer := streamBuffer midReply @ splitChars ''<response>''\<rparr>)"
    using i1 t c by blast
  have b: "handleData exampleParse exampleMessage midReply (itemRecord ''<response>'')
       = Next (midReply\<lparr>hasSeenTags := True, isInResponseTag := True, responseContent := JStr []\<rparr>)"
    using i1 p by blast
  have d: "arrayRecord exampleMessage midReply endRecord = Next midReply"
    using i2 e by blast
  show ?thesis
    using t c p a b e d by blast
qed

section \<open>The end record\<close>

lemma settled_return:
  assumes "timeouts st = []"
  shows "settled (st\<lparr>timeouts := timeouts st @ [d]\<rparr>) = fire d (st\<lparr>timeouts := []\<rparr>)"
  using assms by (simp add: settled_def)


lemma concat_nonempty: "xs \<noteq> [] \<Longrightarrow> [] \<notin> set xs \<Longrightarrow> concat xs \<noteq> []"
  by (cases xs) auto






section \<open>Failure of the request\<close>






section \<open>The terminator\<close>

text \<open>
  Claim C1, at a failing input. Two terminator records arrive in two chunks. The \<^verbatim>\<open>break\<close>
  of line 341 leaves the loop over the lines of the first chunk only, so the second chunk
  is read and its record processed: the text on display in the end is \<^verbatim>\<open>B\<close>, not the
  \<^verbatim>\<open>A\<close> of the first terminator. With both records in one chunk the second one is
  skipped and the text is \<^verbatim>\<open>A\<close>.
\<close>

theorem terminator_does_not_stop_reading:
  "finalVisibleText exampleParse exampleTimes exampleState
     (Response True (Some [Chunk (terminatorA @ [newline]), Chunk (terminatorB @ [newline])]))
   = Some (JStr ''B'')
   \<and> finalVisibleText exampleParse exampleTimes exampleState
     (Response True (Some [Chunk (terminatorA @ [newline] @ terminatorB @ [newline])]))
   = Some (JStr ''A'')"
  by code_simp

section \<open>The batch array heuristic\<close>

text \<open>
  Claim C2, at a failing input. The payload is a JSON array followed by a line feed. The
  first chunk is recognised as an array (\<open>isJsonArray\<close> is set), but the flag is never
  read: the array is decoded as a line, where it is a record of no known type, nothing
  is left in the buffer at the end of the stream, and nothing is displayed. Without the
  line feed the same array is displayed as \<^verbatim>\<open>Hi\<close>.
\<close>

theorem array_with_line_feed_is_lost:
  "finalVisibleText exampleParse exampleTimes exampleState
     (Response True (Some [Chunk (batchText @ [newline])])) = Some (JStr [])
   \<and> isJsonArray (snd (readLoop exampleParse (newAssistantMessage exampleTimes)
        (beginReply exampleTimes exampleState)
        \<lparr>buffer = [], firstChunk = [], isJsonArray = False\<rparr> [Chunk (batchText @ [newline])]))
   \<and> finalVisibleText exampleParse exampleTimes exampleState
     (Response True (Some [Chunk batchText])) = Some (JStr ''Hi'')"
  by code_simp

section \<open>Independence of the chunking\<close>

lemma plusString_plusString: "plusString (plusString v a) b = plusString v (a @ b)"
  by (simp add: plusString_def)

lemma caughtUp_fields:
  "streamInterval (caughtUp st) = streamInterval st"
  "isInResponseTag (caughtUp st) = isInResponseTag st"
  "hasSeenTags (caughtUp st) = hasSeenTags st"
  "timeouts (caughtUp st) = timeouts st"
  "finalContent (caughtUp st) = finalContent st"
  "isLoading (caughtUp st) = isLoading st"
  "loadingInterval (caughtUp st) = loadingInterval st"
  "inputMessage (caughtUp st) = inputMessage st"
  "responseContent (caughtUp st) = responseContent st"
  "butlast (messages (caughtUp st)) = butlast (messages st)"
  by (simp_all add: caughtUp_def replaceLast_def split: option.splits)

lemma caughtUp_idem: "caughtUp (caughtUp st) = caughtUp st"
  by (simp add: caughtUp_def split: option.splits)

lemma core_idem: "core (core st) = core st"
  by (simp add: core_def caughtUp_def split: option.splits)

lemma core_fields:
  "streamInterval (core st) = streamInterval st"
  "isInResponseTag (core st) = isInResponseTag st"
  "hasSeenTags (core st) = hasSeenTags st"
  "timeouts (core st) = timeouts st"
  "finalContent (core st) = finalContent st"
  by (simp_all add: core_def caughtUp_fields)

lemma steady_core: "steady st \<Longrightarrow> steady (core st)"
  by (simp add: steady_def core_def caughtUp_def split: option.splits)




lemma core_push:
  "core (st\<lparr>streamBuffer := streamBuffer st @ xs\<rparr>)
   = core ((core st)\<lparr>streamBuffer := streamBuffer (core st) @ xs\<rparr>)"
  by (simp add: core_def caughtUp_def plusString_plusString replaceLast_def split: option.splits)

lemma core_flags:
  "core (st\<lparr>hasSeenTags := a, isInResponseTag := b, responseContent := c\<rparr>)
   = core ((core st)\<lparr>hasSeenTags := a, isInResponseTag := b, responseContent := c\<rparr>)"
  "core (st\<lparr>isInResponseTag := b, responseContent := c\<rparr>)
   = core ((core st)\<lparr>isInResponseTag := b, responseContent := d\<rparr>)"
  by (simp_all add: core_def caughtUp_def split: option.splits)

lemma core_replaceContent:
  "core (replaceContent am st c) = core (replaceContent am (core st) c)"
  by (simp add: core_def caughtUp_def replaceContent_def stopSmoothStream_def Let_def
      replaceLast_def split: option.splits)

lemma observe_pushChars: "observe (pushChars st c) = observe (pushChars (core st) c)"
proof (cases c)
  case (JStr s)
  show ?thesis
    unfolding JStr pushChars.simps observe.simps
    by (subst core_push) simp
qed (simp_all add: core_idem)

lemma splitChars_no_blank: "[] \<notin> set (splitChars s)"
  by (auto simp add: splitChars_def)

lemma steady_pushChars: "steady st \<Longrightarrow> steadyFlow (pushChars st c)"
  by (cases c) (simp_all add: steady_def splitChars_no_blank)

lemma steady_replaceContent: "steady st \<Longrightarrow> steady (replaceContent am st c)"
  by (simp add: steady_def replaceContent_def Let_def stop_simps)

lemma streamedSoFar_core: "streamedSoFar (core st) = streamedSoFar st"
  by (simp add: streamedSoFar_def core_def caughtUp_def split: option.splits)

lemma shown_end:
  assumes "timeouts st = []"
  shows "shown ((stopSmoothStream st)\<lparr>timeouts := timeouts (stopSmoothStream st) @ [FinishNormal am]\<rparr>)
         = (if truthy (streamedSoFar st) then streamedSoFar st else visibleText st)"
proof -
  define st1 where "st1 = stopSmoothStream st"
  have cc: "currentContent st1 = streamedSoFar st"
    by (simp add: st1_def stopSmoothStream_def streamedSoFar_def)
  have m: "messages st1 = messages st" and t: "timeouts st1 = []"
    using assms by (simp_all add: st1_def stop_simps)
  show ?thesis
    unfolding st1_def[symmetric]
    using cc m t
    by (simp add: shown_def finallyBlock_def stopLoadingTimer_def settled_def visibleText_def
        replaceLast_def)
qed

lemma visible_when_blank:
  assumes "steady st" and "\<not> truthy (streamedSoFar st)"
  shows "visibleText (core st) = visibleText st"
proof -
  have "streamBuffer st = []"
  proof (rule ccontr)
    assume ne: "streamBuffer st \<noteq> []"
    moreover have "[] \<notin> set (streamBuffer st)"
      using assms(1) by (simp add: steady_def)
    ultimately have "concat (streamBuffer st) \<noteq> []"
      by (rule concat_nonempty)
    then show False
      using assms(2) ne by (simp add: streamedSoFar_def plusString_def)
  qed
  then show ?thesis
    by (simp add: core_def caughtUp_def visibleText_def split: option.splits)
qed

lemma shown_end_core:
  assumes "steady st"
  shows "shown ((stopSmoothStream st)\<lparr>timeouts := timeouts (stopSmoothStream st) @ [FinishNormal am]\<rparr>)
       = shown ((stopSmoothStream (core st))\<lparr>timeouts := timeouts (stopSmoothStream (core st)) @ [FinishNormal am]\<rparr>)"
proof -
  have t: "timeouts st = []" "timeouts (core st) = []"
    using assms by (simp_all add: steady_def core_fields)
  show ?thesis
    using visible_when_blank[OF assms]
    by (simp add: shown_end t streamedSoFar_core)
qed

lemma observe_handleItem:
  assumes "plain c"
  shows "observe (handleItem am st c) = observe (handleItem am (core st) c)"
proof (cases c)
  case (JStr s)
  have np: "\<not> (includesStr s ''<end>'' \<and> includesStr s ''</end>'')"
    using assms JStr by (simp add: plain_def)
  consider (openTag) "s = ''<response>''" | (closeTag) "s = ''</response>''"
    | (other) "s \<noteq> ''<response>''" "s \<noteq> ''</response>''"
    by blast
  then show ?thesis
  proof cases
    case openTag
    then show ?thesis
      unfolding JStr handleItem_def
      using core_flags(1)[where st = st and a = True and b = True and c = "JStr []"] by simp
  next
    case closeTag
    then show ?thesis
      unfolding JStr handleItem_def
      using core_flags(2)[where st = st and b = False and c = "currentContent st"
          and d = "currentContent (core st)"] by simp
  next
    case other
    then show ?thesis
      unfolding JStr handleItem_def
      using np observe_pushChars[of st "JStr s"]
      by (auto simp add: core_fields core_idem simp del: pushChars.simps)
  qed
next
  case (JArr xs)
  show ?thesis
    unfolding JArr handleItem_def
    by (auto simp add: core_fields core_idem)
qed (simp_all add: handleItem_def core_idem)

lemma steady_handleItem:
  assumes "plain c" and "steady st"
  shows "steadyFlow (handleItem am st c)"
proof (cases c)
  case (JStr s)
  have np: "\<not> (includesStr s ''<end>'' \<and> includesStr s ''</end>'')"
    using assms JStr by (simp add: plain_def)
  show ?thesis
    unfolding JStr handleItem_def
    using np assms(2) steady_pushChars[OF assms(2), of "JStr s"]
    by (auto simp add: steady_def simp del: pushChars.simps)
next
  case (JArr xs)
  show ?thesis
    unfolding JArr handleItem_def
    using assms(2) by auto
qed (simp_all add: handleItem_def assms(2))

lemma observe_catchLog: "observe r = observe r' \<Longrightarrow> observe (catchLog r) = observe (catchLog r')"
  by (cases r; cases r') (simp_all add: catchLog_def)

lemma steady_catchLog: "steadyFlow r \<Longrightarrow> steadyFlow (catchLog r)"
  by (cases r) (simp_all add: catchLog_def)

lemma plain_itemContent:
  assumes "\<not> isTerminator parse line" and "itemContent parse line = Some c"
  shows "plain c"
  using assms by (cases c) (simp_all add: isTerminator_def plain_def)

lemma observe_handleData:
  assumes "steady st"
      and "\<not> nullish data \<and> getProp data ''type'' = JStr ''item'' \<and> truthy (getProp data ''content'')
           \<longrightarrow> plain (unwrapOutput parse (getProp data ''content''))"
  shows "observe (handleData parse am st data) = observe (handleData parse am (core st) data)"
    and "steadyFlow (handleData parse am st data)"
proof -
  consider (null) "nullish data"
    | (item) "\<not> nullish data" "getProp data ''type'' = JStr ''item''" "truthy (getProp data ''content'')"
    | (repl) "\<not> nullish data" "getProp data ''type'' = JStr ''final'' \<or> getProp data ''type'' = JStr ''replace''"
    | (fin) "\<not> nullish data" "getProp data ''type'' = JStr ''end''"
    | (other) "\<not> nullish data"
        "\<not> (getProp data ''type'' = JStr ''item'' \<and> truthy (getProp data ''content''))"
        "getProp data ''type'' \<noteq> JStr ''final''" "getProp data ''type'' \<noteq> JStr ''replace''"
        "getProp data ''type'' \<noteq> JStr ''end''"
    by blast
  then have "observe (handleData parse am st data) = observe (handleData parse am (core st) data)
             \<and> steadyFlow (handleData parse am st data)"
  proof cases
    case null
    then show ?thesis
      using assms(1) by (simp add: handleData_def core_idem)
  next
    case item
    have h: "handleData parse am s data = handleItem am s (unwrapOutput parse (getProp data ''content''))"
      for s
      using item by (simp add: handleData_def)
    have "plain (unwrapOutput parse (getProp data ''content''))"
      using item assms(2) by simp
    then show ?thesis
      using observe_handleItem[of "unwrapOutput parse (getProp data ''content'')" am st]
        steady_handleItem[of "unwrapOutput parse (getProp data ''content'')" st am] assms(1)
      by (simp add: h)
  next
    case repl
    have h: "handleData parse am s data = Next (replaceContent am s (getProp data ''content''))"
      for s
      using repl by (auto simp add: handleData_def)
    show ?thesis
      using core_replaceContent[of am st] steady_replaceContent[OF assms(1), of am]
      by (simp add: h)
  next
    case fin
    have h: "handleData parse am s data =
      (if \<not> hasSeenTags s
       then Return ((stopSmoothStream s)\<lparr>timeouts := timeouts (stopSmoothStream s) @ [FinishNormal am]\<rparr>)
       else Next s)"
      for s
      using fin by (simp add: handleData_def Let_def)
    show ?thesis
      using shown_end_core[OF assms(1), of am] assms(1)
      by (simp add: h core_fields core_idem)
  next
    case other
    have h: "handleData parse am s data = Next s" for s
      using other by (auto simp add: handleData_def)
    show ?thesis
      using assms(1) by (simp add: h core_idem)
  qed
  then show "observe (handleData parse am st data) = observe (handleData parse am (core st) data)"
    and "steadyFlow (handleData parse am st data)"
    by simp_all
qed

lemma observe_processLine:
  assumes "\<not> isTerminator parse line" and "steady st"
  shows "observe (processLine parse am st line) = observe (processLine parse am (core st) line)"
    and "steadyFlow (processLine parse am st line)"
proof -
  have p: "\<not> nullish data \<and> getProp data ''type'' = JStr ''item'' \<and> truthy (getProp data ''content'')
           \<longrightarrow> plain (unwrapOutput parse (getProp data ''content''))"
    if "trim line \<noteq> []" "parse (trim line) = Some data" for data
  proof
    assume a: "\<not> nullish data \<and> getProp data ''type'' = JStr ''item'' \<and> truthy (getProp data ''content'')"
    then have "itemContent parse line = Some (unwrapOutput parse (getProp data ''content''))"
      using that by (simp add: itemContent_def)
    then show "plain (unwrapOutput parse (getProp data ''content''))"
      using assms(1) by (rule plain_itemContent[rotated])
  qed
  show "observe (processLine parse am st line) = observe (processLine parse am (core st) line)"
  proof (cases "trim line = []")
    case True
    then show ?thesis by (simp add: processLine_def core_idem)
  next
    case False
    show ?thesis
    proof (cases "parse (trim line)")
      case None
      then show ?thesis using False by (simp add: processLine_def catchLog_def core_idem)
    next
      case (Some data)
      have "observe (catchLog (handleData parse am st data))
            = observe (catchLog (handleData parse am (core st) data))"
        using observe_handleData(1)[OF assms(2) p[OF False Some], of am]
        by (rule observe_catchLog)
      then show ?thesis
        using False Some by (simp add: processLine_def)
    qed
  qed
  show "steadyFlow (processLine parse am st line)"
  proof (cases "trim line = []")
    case True
    then show ?thesis using assms(2) by (simp add: processLine_def)
  next
    case False
    show ?thesis
    proof (cases "parse (trim line)")
      case None
      then show ?thesis using False assms(2) by (simp add: processLine_def catchLog_def)
    next
      case (Some data)
      then show ?thesis
        using False observe_handleData(2)[OF assms(2) p[OF False Some], of am]
        by (simp add: processLine_def steady_catchLog)
    qed
  qed
qed




lemma processLine_no_break:
  assumes "\<not> isTerminator parse l" and "steady s"
  shows "processLine parse am s l \<noteq> Break s'"
proof
  assume "processLine parse am s l = Break s'"
  then show False
    using observe_processLine(2)[OF assms, of am] by simp
qed

















































end
